theory Spec2Isabelle
  imports Complex_Main
begin

section \<open>Data model\<close>

text \<open>
  The kernel scores a wallet from per-chain transaction counts and first-activity
  timestamps. JavaScript numbers are modelled by exact values: transaction counts and
  millisecond timestamps by \<open>int\<close>, the scoring formula by \<open>real\<close> (rounding of IEEE
  doubles is not represented). The one place where the formula can leave the numbers is
  \<open>Math.sqrt\<close> of a negative argument, which is \<open>NaN\<close>; a number that may be \<open>NaN\<close> is an
  \<open>option\<close>, with \<open>None\<close> for \<open>NaN\<close>.
\<close>

text \<open>One entry of \<open>txData\<close>: \<open>{ count, firstTxTimestamp }\<close>; \<open>None\<close> is \<open>null\<close>.\<close>

record chain_activity =
  count :: int
  firstTxTimestamp :: "int option"

text \<open>
  \<open>txData\<close> is an object keyed by network name; \<open>Object.entries\<close> lists it in insertion
  order, so it is an association list.
\<close>

type_synonym txData = "(string \<times> chain_activity) list"

text \<open>
  An entry of the \<open>networks\<close> table. The field \<open>enabled\<close> holds the \<open>ENABLED_NETWORKS\<close>
  flag; whether the SDK defines the network constant is a property of the SDK and is
  taken into account where the Alchemy instances are created.
\<close>

record network_config =
  weight :: real
  enabled :: bool
  supportsInternalTx :: bool

type_synonym network_table = "(string \<times> network_config) list"

definition networks :: network_table where
  "networks =
     [(''ethereum'',  \<lparr>weight = 1.0, enabled = True, supportsInternalTx = True\<rparr>),
      (''polygon'',   \<lparr>weight = 0.8, enabled = True, supportsInternalTx = True\<rparr>),
      (''arbitrum'',  \<lparr>weight = 0.7, enabled = True, supportsInternalTx = False\<rparr>),
      (''optimism'',  \<lparr>weight = 0.7, enabled = True, supportsInternalTx = True\<rparr>),
      (''base'',      \<lparr>weight = 0.7, enabled = True, supportsInternalTx = False\<rparr>),
      (''avalanche'', \<lparr>weight = 0.7, enabled = True, supportsInternalTx = False\<rparr>),
      (''bsc'',       \<lparr>weight = 0.6, enabled = True, supportsInternalTx = False\<rparr>),
      (''fantom'',    \<lparr>weight = 0.6, enabled = True, supportsInternalTx = False\<rparr>),
      (''zksync'',    \<lparr>weight = 0.7, enabled = True, supportsInternalTx = False\<rparr>)]"

text \<open>
  The environment as \<open>calculateCreditScore\<close> reads it: the values of
  \<open>parseInt(process.env.X || default)\<close>, taken as integers.
\<close>

record env =
  MAX_SCORE :: int
  MIN_SCORE :: int
  PASS_THRESHOLD :: int

definition default_env :: env where
  "default_env = \<lparr>MAX_SCORE = 850, MIN_SCORE = 300, PASS_THRESHOLD = 600\<rparr>"

text \<open>The object returned by \<open>calculateCreditScore\<close>.\<close>

record score_result =
  score :: "int option"
  txCount :: int
  weightedTxCount :: real
  txComponent :: real
  ageComponent :: "real option"
  activityComponent :: real
  activeNetworks :: nat
  details :: txData
  accountAgeInDays :: real
  status :: string

section \<open>The scoring formula\<close>

definition TX_COUNT_WEIGHT :: real where "TX_COUNT_WEIGHT = 0.5"
definition AGE_WEIGHT :: real where "AGE_WEIGHT = 0.3"
definition ACTIVITY_WEIGHT :: real where "ACTIVITY_WEIGHT = 0.2"
definition MAX_TX_COUNT :: real where "MAX_TX_COUNT = 500"
definition MAX_ACCOUNT_AGE_DAYS :: real where "MAX_ACCOUNT_AGE_DAYS = 730"
definition MAX_NETWORKS :: real where "MAX_NETWORKS = 5"

text \<open>
  \<open>networks[network]?.weight || 0.5\<close>: the default applies when the network is not in
  the table and when its weight is falsy, that is \<open>0\<close>.
\<close>

definition networkWeight :: "network_table \<Rightarrow> string \<Rightarrow> real" where
  "networkWeight nets network =
     (case map_of nets network of
        None \<Rightarrow> 0.5
      | Some c \<Rightarrow> if weight c = 0 then 0.5 else weight c)"

text \<open>
  The \<open>for\<close> loop over \<open>Object.entries(txData)\<close>, with its three running variables
  \<open>(totalWeightedTxCount, totalTransactions, activeNetworks)\<close>.
\<close>

fun tally :: "network_table \<Rightarrow> txData \<Rightarrow> real \<times> int \<times> nat \<Rightarrow> real \<times> int \<times> nat" where
  "tally nets [] acc = acc"
| "tally nets ((network, data) # rest) (w, t, a) =
     tally nets rest
       (w + of_int (count data) * networkWeight nets network,
        t + count data,
        if count data \<ge> 3 then a + 1 else a)"

text \<open>\<open>Math.sqrt\<close>: \<open>NaN\<close> on a negative argument.\<close>

definition Math_sqrt :: "real \<Rightarrow> real option" where
  "Math_sqrt x = (if x < 0 then None else Some (sqrt x))"

definition calculateCreditScore ::
    "env \<Rightarrow> network_table \<Rightarrow> txData \<Rightarrow> real \<Rightarrow> score_result" where
  "calculateCreditScore e nets txd ageDays =
     (let (totalWeightedTxCount, totalTransactions, activeNets) = tally nets txd (0, 0, 0);
          txC = (if totalWeightedTxCount > 0
                 then min (ln (totalWeightedTxCount + 1) / ln (MAX_TX_COUNT + 1)) 1
                 else 0);
          ageBonus = (if totalTransactions > 0 \<and> ageDays < 30 then 0.1 else 0);
          ageC = map_option (\<lambda>r. min (r + ageBonus) 1)
                   (Math_sqrt (ageDays / MAX_ACCOUNT_AGE_DAYS));
          activityC = min (real activeNets / MAX_NETWORKS) 1;
          weightedScore = map_option
             (\<lambda>a. txC * TX_COUNT_WEIGHT + a * AGE_WEIGHT + activityC * ACTIVITY_WEIGHT) ageC;
          finalScore = map_option
             (\<lambda>ws. of_int (MIN_SCORE e) + ws * of_int (MAX_SCORE e - MIN_SCORE e)) weightedScore
      in \<lparr>score = map_option round finalScore,
          txCount = totalTransactions,
          weightedTxCount = totalWeightedTxCount,
          txComponent = txC,
          ageComponent = ageC,
          activityComponent = activityC,
          activeNetworks = activeNets,
          details = txd,
          accountAgeInDays = ageDays,
          status = (case map_option round finalScore of
                      Some s \<Rightarrow> if s \<ge> PASS_THRESHOLD e then ''pass'' else ''fail''
                    | None \<Rightarrow> ''fail'')\<rparr>)"

section \<open>The request handlers\<close>

subsection \<open>Wallet address validation\<close>

text \<open>
  Both handlers reject with \<open>!addr || !addr.match(/^0x[a-fA-F0-9]{40}$/)\<close>. The empty
  string is falsy and also fails the pattern.
\<close>

definition is_hex_digit :: "char \<Rightarrow> bool" where
  "is_hex_digit c = (c \<in> set ''0123456789abcdefABCDEF'')"

definition valid_wallet_address :: "string \<Rightarrow> bool" where
  "valid_wallet_address s =
     (s \<noteq> [] \<and> length s = 42 \<and> take 2 s = ''0x'' \<and> list_all is_hex_digit (drop 2 s))"

subsection \<open>Fan-out and join\<close>

text \<open>
  What one chain's fetch task meets at the provider: \<open>getTransactionCount\<close> throws or
  times out (\<open>FetchFailed\<close>), or it returns the count and the chain of timestamp
  queries, each with its own \<open>try/catch\<close>, ends with a timestamp or with \<open>null\<close>.
\<close>

datatype fetch_outcome = FetchFailed | Fetched int "int option"

text \<open>
  The task body. The timestamp queries run only \<open>if (txCount > 0)\<close>; otherwise
  \<open>firstTxTimestamp\<close> stays \<open>null\<close>. \<open>None\<close> is the outer \<open>catch\<close>, which leaves
  \<open>txData[network]\<close> as initialised.
\<close>

fun fetch_task :: "fetch_outcome \<Rightarrow> chain_activity option" where
  "fetch_task FetchFailed = None"
| "fetch_task (Fetched n resolved) =
     Some \<lparr>count = n, firstTxTimestamp = (if n > 0 then resolved else None)\<rparr>"

text \<open>\<open>txData[network] = v\<close>: an existing key keeps its place, a new key goes last.\<close>

fun assign :: "txData \<Rightarrow> string \<Rightarrow> chain_activity \<Rightarrow> txData" where
  "assign [] k v = [(k, v)]"
| "assign ((k', v') # rest) k v =
     (if k' = k then (k, v) # rest else (k', v') # assign rest k v)"

text \<open>\<open>txData\<close> initialised for all networks, enabled or not.\<close>

definition init_txData :: "network_table \<Rightarrow> txData" where
  "init_txData nets =
     map (\<lambda>(network, cfg). (network, \<lparr>count = 0, firstTxTimestamp = None\<rparr>)) nets"

text \<open>
  The keys of \<open>alchemyInstances\<close>: the networks that are enabled and for which the SDK
  defines the network constant and the \<open>Alchemy\<close> constructor succeeds (\<open>sdk_ok\<close>).
\<close>

definition alchemyInstances :: "network_table \<Rightarrow> (string \<Rightarrow> bool) \<Rightarrow> string list" where
  "alchemyInstances nets sdk_ok =
     map fst (filter (\<lambda>(network, cfg). enabled cfg \<and> sdk_ok network) nets)"

text \<open>
  \<open>Promise.allSettled\<close>: every task has run to its end. The tasks are concurrent; each
  writes \<open>txData\<close> once, at its end, under its own key. \<open>settle\<close> performs these writes in
  the order in which the tasks end.
\<close>

fun settle :: "(string \<Rightarrow> fetch_outcome) \<Rightarrow> string list \<Rightarrow> txData \<Rightarrow> txData" where
  "settle provider [] txd = txd"
| "settle provider (network # rest) txd =
     settle provider rest
       (case fetch_task (provider network) of
          None \<Rightarrow> txd
        | Some v \<Rightarrow> assign txd network v)"

subsection \<open>Account age\<close>

text \<open>
  Truthiness of a timestamp: \<open>null\<close> and \<open>0\<close> are falsy. \<open>older ts oldest\<close> is the test
  \<open>ts && (!oldest || ts < oldest)\<close>.
\<close>

definition truthy :: "int option \<Rightarrow> bool" where
  "truthy ts = (case ts of None \<Rightarrow> False | Some t \<Rightarrow> t \<noteq> 0)"

definition older :: "int option \<Rightarrow> int option \<Rightarrow> bool" where
  "older ts oldest =
     (case ts of
        None \<Rightarrow> False
      | Some t \<Rightarrow> t \<noteq> 0 \<and> (case oldest of None \<Rightarrow> True | Some ol \<Rightarrow> ol = 0 \<or> t < ol))"

text \<open>The loop with its running variables \<open>(oldestTxTimestamp, hasTxButNoTimestamp)\<close>.\<close>

fun age_loop :: "txData \<Rightarrow> int option \<times> bool \<Rightarrow> int option \<times> bool" where
  "age_loop [] acc = acc"
| "age_loop ((network, data) # rest) (oldest, hasTx) =
     age_loop rest
       (if older (firstTxTimestamp data) oldest then firstTxTimestamp data else oldest,
        if count data > 0 \<and> \<not> truthy (firstTxTimestamp data) then True else hasTx)"

text \<open>\<open>Object.values(txData).reduce((sum, data) => sum + data.count, 0)\<close>\<close>

definition totalTxCount :: "txData \<Rightarrow> int" where
  "totalTxCount txd = foldl (\<lambda>sum data. sum + count data) 0 (map snd txd)"

text \<open>
  \<open>accountAgeInDays\<close> as the handler derives it; \<open>now\<close> is \<open>Date.now()\<close> and a day is
  \<open>1000 * 60 * 60 * 24\<close> milliseconds. \<open>Math.floor\<close> of the quotient is \<open>div\<close> on \<open>int\<close>.
\<close>

definition accountAge :: "int \<Rightarrow> txData \<Rightarrow> int" where
  "accountAge now txd =
     (let (oldestTxTimestamp, hasTxButNoTimestamp) = age_loop txd (None, False)
      in if truthy oldestTxTimestamp
         then (case oldestTxTimestamp of
                 Some t \<Rightarrow> (now - t) div (1000 * 60 * 60 * 24)
               | None \<Rightarrow> 0)
         else if hasTxButNoTimestamp then min (totalTxCount txd * 5) 365
         else 0)"

text \<open>
  The timestamps that the chains of a \<open>txData\<close> carry, in order; the account-age
  derivation is stated in terms of their minimum.
\<close>

fun timestamps :: "txData \<Rightarrow> int list" where
  "timestamps [] = []"
| "timestamps ((network, data) # rest) =
     (case firstTxTimestamp data of
        None \<Rightarrow> timestamps rest
      | Some t \<Rightarrow> t # timestamps rest)"

subsection \<open>GET /wallet-score/:wallet_address\<close>

text \<open>
  What a request meets outside the program: the environment, the SDK, the provider's
  answers for a wallet on each network, the order in which the fetch tasks end, and the
  clock.
\<close>

record world =
  w_env :: env
  w_sdk_ok :: "string \<Rightarrow> bool"
  w_provider :: "string \<Rightarrow> string \<Rightarrow> fetch_outcome"
  w_order :: "string list"
  w_now :: int

text \<open>
  The responses: \<open>400\<close> with an error body, \<open>200\<close> with the bare score (\<open>res.json\<close> of
  \<open>NaN\<close> is \<open>null\<close>, here \<open>None\<close>), \<open>500\<close> from a \<open>catch\<close>, and \<open>404\<close> when no route
  matches.
\<close>

datatype response = Status400 | Json200 "int option" | Status500 | Status404

definition collect_txData :: "world \<Rightarrow> string \<Rightarrow> txData" where
  "collect_txData w walletAddress =
     settle (w_provider w walletAddress) (w_order w) (init_txData networks)"

definition get_wallet_score :: "world \<Rightarrow> string \<Rightarrow> response" where
  "get_wallet_score w walletAddress =
     (if \<not> valid_wallet_address walletAddress then Status400
      else let txd = collect_txData w walletAddress;
               ageDays = accountAge (w_now w) txd;
               scoreResult = calculateCreditScore (w_env w) networks txd (of_int ageDays)
           in Json200 (score scoreResult))"

subsection \<open>POST /wallet-score and the dispatch of a request\<close>

text \<open>
  A request as the router sees it: method and path select the route; \<open>params\<close> and
  \<open>body\<close> carry the wallet address.
\<close>

datatype http_method = GET | POST

record request =
  req_method :: http_method
  req_path :: string
  req_params_wallet_address :: "string option"
  req_body_wallet_address :: "string option"

text \<open>
  The path pattern \<open>/wallet-score/:wallet_address\<close>: the prefix, then one non-empty
  segment, which becomes the parameter.
\<close>

definition match_wallet_score_param :: "string \<Rightarrow> string option" where
  "match_wallet_score_param p =
     (let pre = ''/wallet-score/''; seg = drop (length pre) p
      in if take (length pre) p = pre \<and> seg \<noteq> [] \<and> CHR ''/'' \<notin> set seg
         then Some seg else None)"

text \<open>
  The POST handler validates \<open>req.body.wallet_address\<close>, stores it in
  \<open>req.params.wallet_address\<close> and calls \<open>app.handle(req, res)\<close>, here \<open>handle\<close>. It
  changes neither the method nor the path of the request.
\<close>

definition post_wallet_score ::
    "(request \<Rightarrow> response option) \<Rightarrow> request \<Rightarrow> response option" where
  "post_wallet_score handle req =
     (case req_body_wallet_address req of
        None \<Rightarrow> Some Status400
      | Some wallet_address \<Rightarrow>
          if \<not> valid_wallet_address wallet_address then Some Status400
          else handle (req\<lparr>req_params_wallet_address := Some wallet_address\<rparr>))"

text \<open>
  \<open>app.handle\<close>: the router runs the first registered route whose method and path
  pattern match the request, and sets \<open>req.params\<close> from the path. The routes are, in
  order of registration, \<open>GET /wallet-score/:wallet_address\<close> and \<open>POST /wallet-score\<close>.
  The first argument bounds the nesting of \<open>app.handle\<close> calls; \<open>None\<close> means that the
  nesting went beyond it without a response.
\<close>

primrec app_handle :: "nat \<Rightarrow> world \<Rightarrow> request \<Rightarrow> response option" where
  "app_handle 0 = (\<lambda>w req. None)"
| "app_handle (Suc n) = (\<lambda>w req.
     if req_method req = GET then
       (case match_wallet_score_param (req_path req) of
          Some walletAddress \<Rightarrow> Some (get_wallet_score w walletAddress)
        | None \<Rightarrow> Some Status404)
     else if req_path req = ''/wallet-score'' then post_wallet_score (app_handle n w) req
     else Some Status404)"

definition get_request :: "string \<Rightarrow> request" where
  "get_request addr =
     \<lparr>req_method = GET, req_path = ''/wallet-score/'' @ addr,
      req_params_wallet_address = None, req_body_wallet_address = None\<rparr>"

definition post_request :: "string \<Rightarrow> request" where
  "post_request addr =
     \<lparr>req_method = POST, req_path = ''/wallet-score'',
      req_params_wallet_address = None, req_body_wallet_address = Some addr\<rparr>"

section \<open>Properties of the scoring formula\<close>

subsection \<open>The loop and the fields of the result\<close>

lemma tally_weighted:
  "fst (tally nets xs (w, t, a)) =
     w + (\<Sum>(network, data)\<leftarrow>xs. of_int (count data) * networkWeight nets network)"
  by (induction xs arbitrary: w t a) (auto simp: algebra_simps)

lemma tally_total:
  "fst (snd (tally nets xs (w, t, a))) = t + (\<Sum>(network, data)\<leftarrow>xs. count data)"
  by (induction xs arbitrary: w t a) (auto simp: algebra_simps)

lemma tally_active:
  "snd (snd (tally nets xs (w, t, a))) = a + length (filter (\<lambda>(network, data). count data \<ge> 3) xs)"
  by (induction xs arbitrary: w t a) (auto simp: algebra_simps)

lemma txComponent_eq:
  "txComponent (calculateCreditScore e nets txd ageDays) =
     (let w = fst (tally nets txd (0, 0, 0))
      in if w > 0 then min (ln (w + 1) / ln (MAX_TX_COUNT + 1)) 1 else 0)"
  by (simp add: calculateCreditScore_def Let_def split: prod.splits)

lemma ageComponent_eq:
  "ageComponent (calculateCreditScore e nets txd ageDays) =
     map_option
       (\<lambda>r. min (r + (if fst (snd (tally nets txd (0, 0, 0))) > 0 \<and> ageDays < 30 then 0.1 else 0)) 1)
       (Math_sqrt (ageDays / MAX_ACCOUNT_AGE_DAYS))"
  by (simp add: calculateCreditScore_def Let_def split: prod.splits)

lemma activityComponent_eq:
  "activityComponent (calculateCreditScore e nets txd ageDays) =
     min (real (snd (snd (tally nets txd (0, 0, 0)))) / MAX_NETWORKS) 1"
  by (simp add: calculateCreditScore_def Let_def split: prod.splits)

lemma score_eq:
  "score (calculateCreditScore e nets txd ageDays) =
     map_option
       (\<lambda>a. round (of_int (MIN_SCORE e) +
          (txComponent (calculateCreditScore e nets txd ageDays) * TX_COUNT_WEIGHT
           + a * AGE_WEIGHT
           + activityComponent (calculateCreditScore e nets txd ageDays) * ACTIVITY_WEIGHT)
          * of_int (MAX_SCORE e - MIN_SCORE e)))
       (ageComponent (calculateCreditScore e nets txd ageDays))"
  by (simp add: calculateCreditScore_def Let_def option.map_comp comp_def split: prod.splits)

lemma txComponent_range:
  "0 \<le> txComponent (calculateCreditScore e nets txd ageDays) \<and>
   txComponent (calculateCreditScore e nets txd ageDays) \<le> 1"
  by (simp add: txComponent_eq Let_def MAX_TX_COUNT_def)

lemma activityComponent_range:
  "0 \<le> activityComponent (calculateCreditScore e nets txd ageDays) \<and>
   activityComponent (calculateCreditScore e nets txd ageDays) \<le> 1"
  by (simp add: activityComponent_eq MAX_NETWORKS_def)

lemma ageComponent_range:
  assumes "0 \<le> ageDays"
  shows "\<exists>a. ageComponent (calculateCreditScore e nets txd ageDays) = Some a \<and> 0 \<le> a \<and> a \<le> 1"
  using assms by (simp add: ageComponent_eq Math_sqrt_def MAX_ACCOUNT_AGE_DAYS_def)

lemma final_in_range:
  fixes lo hi :: int and w :: real
  assumes "lo \<le> hi" "0 \<le> w" "w \<le> 1"
  shows "lo \<le> round (of_int lo + w * of_int (hi - lo)) \<and> round (of_int lo + w * of_int (hi - lo)) \<le> hi"
proof -
  have d: "0 \<le> (of_int (hi - lo) :: real)" using assms(1) by simp
  have "0 \<le> w * of_int (hi - lo)" using assms(2) d by (rule mult_nonneg_nonneg)
  then have l: "(of_int lo :: real) \<le> of_int lo + w * of_int (hi - lo)" by simp
  have "w * of_int (hi - lo) \<le> 1 * (of_int (hi - lo) :: real)"
    using assms(3) d by (rule mult_right_mono)
  then have u: "of_int lo + w * of_int (hi - lo) \<le> (of_int hi :: real)" by simp
  from round_mono[OF l] round_mono[OF u] show ?thesis by simp
qed

subsection \<open>The score is an integer within the configured range\<close>

text \<open>
  Claim C1. \<open>calculateCreditScore\<close> has no failing branch: it is a total function of its
  arguments. For every \<open>txData\<close> and every non-negative account age its score is a number
  (not \<open>NaN\<close>), an integer \<open>s\<close> with \<open>MIN_SCORE \<le> s \<le> MAX_SCORE\<close>, whenever the configured
  range is not empty; the defaults are 300 and 850.
\<close>

theorem score_bounded:
  assumes "MIN_SCORE e \<le> MAX_SCORE e" and "0 \<le> ageDays"
  shows "\<exists>s. score (calculateCreditScore e nets txd ageDays) = Some s \<and>
             MIN_SCORE e \<le> s \<and> s \<le> MAX_SCORE e"
proof -
  let ?r = "calculateCreditScore e nets txd ageDays"
  obtain a where a: "ageComponent ?r = Some a" "0 \<le> a" "a \<le> 1"
    using ageComponent_range[OF assms(2)] by blast
  define w where "w = txComponent ?r * TX_COUNT_WEIGHT + a * AGE_WEIGHT
                      + activityComponent ?r * ACTIVITY_WEIGHT"
  have t: "0 \<le> txComponent ?r" "txComponent ?r \<le> 1" using txComponent_range by blast+
  have c: "0 \<le> activityComponent ?r" "activityComponent ?r \<le> 1"
    using activityComponent_range by blast+
  have w: "0 \<le> w" "w \<le> 1"
    using t c a by (simp_all add: w_def TX_COUNT_WEIGHT_def AGE_WEIGHT_def ACTIVITY_WEIGHT_def)
  have "score ?r = Some (round (of_int (MIN_SCORE e) + w * of_int (MAX_SCORE e - MIN_SCORE e)))"
    by (subst score_eq) (simp add: a w_def)
  with final_in_range[OF assms(1) w] show ?thesis by simp
qed

theorem score_bounded_witness:
  "MIN_SCORE default_env \<le> MAX_SCORE default_env \<and> (0::real) \<le> 730 \<and>
   (\<exists>s. score (calculateCreditScore default_env networks
                 [(''ethereum'', \<lparr>count = 500, firstTxTimestamp = None\<rparr>)] 730) = Some s \<and>
        MIN_SCORE default_env \<le> s \<and> s \<le> MAX_SCORE default_env)"
proof -
  have h1: "MIN_SCORE default_env \<le> MAX_SCORE default_env" by (simp add: default_env_def)
  have h2: "(0::real) \<le> 730" by simp
  show ?thesis by (rule conjI[OF h1 conjI[OF h2 score_bounded[OF h1 h2]]])
qed

subsection \<open>The transaction component\<close>

lemma networks_weight:
  assumes "map_of networks k = Some c"
  shows "0 < weight c \<and> networkWeight networks k = weight c"
  using assms by (auto simp: networks_def networkWeight_def split: if_splits)

lemma weighted_sum_configured:
  assumes "\<forall>(k, d) \<in> set txd. map_option weight (map_of networks k) = Some (wt k)"
  shows "(\<Sum>(k, d)\<leftarrow>txd. of_int (count d) * networkWeight networks k) =
         (\<Sum>(k, d)\<leftarrow>txd. of_int (count d) * wt k)"
  using assms
proof (induction txd)
  case Nil
  then show ?case by simp
next
  case (Cons x xs)
  obtain k d where x: "x = (k, d)" by (cases x)
  from Cons.prems x obtain c where "map_of networks k = Some c" "weight c = wt k" by auto
  then have "networkWeight networks k = wt k" using networks_weight by auto
  with Cons x show ?case by simp
qed

lemma weighted_sum_nonneg:
  assumes "\<forall>(k, d) \<in> set txd. 0 \<le> count d"
  shows "0 \<le> (\<Sum>(k, d)\<leftarrow>txd. of_int (count d) * networkWeight networks k)"
proof -
  have w: "0 \<le> networkWeight networks k" for k
    using networks_weight[of k] by (cases "map_of networks k") (auto simp: networkWeight_def)
  show ?thesis
    using assms by (induction txd) (auto simp: w)
qed

text \<open>
  Claim C2. For a \<open>txData\<close> over configured chains with non-negative counts, where
  \<open>wt k\<close> is the weight the table \<open>networks\<close> configures for chain \<open>k\<close>, the transaction
  component is \<open>min (ln (1 + \<Sum> count\<^sub>i * wt\<^sub>i) / ln (1 + 500)) 1\<close>, and it lies
  in \<open>[0, 1]\<close>.
\<close>

theorem txComponent_formula:
  assumes "\<forall>(k, d) \<in> set txd. 0 \<le> count d"
    and "\<forall>(k, d) \<in> set txd. map_option weight (map_of networks k) = Some (wt k)"
  shows "txComponent (calculateCreditScore e networks txd ageDays) =
           min (ln (1 + (\<Sum>(k, d)\<leftarrow>txd. of_int (count d) * wt k)) / ln (1 + 500)) 1
         \<and> 0 \<le> txComponent (calculateCreditScore e networks txd ageDays)
         \<and> txComponent (calculateCreditScore e networks txd ageDays) \<le> 1"
proof -
  let ?S = "\<Sum>(k, d)\<leftarrow>txd. of_int (count d) * wt k"
  have w: "fst (tally networks txd (0, 0, 0)) = ?S"
    by (simp add: tally_weighted weighted_sum_configured[OF assms(2)])
  have nn: "0 \<le> ?S"
    using weighted_sum_nonneg[OF assms(1)] weighted_sum_configured[OF assms(2)] by simp
  have "txComponent (calculateCreditScore e networks txd ageDays) =
          min (ln (1 + ?S) / ln (1 + 500)) 1"
  proof (cases "0 < ?S")
    case True
    then show ?thesis by (simp add: txComponent_eq w MAX_TX_COUNT_def add.commute)
  next
    case False
    with nn have "?S = 0" by simp
    then show ?thesis by (simp add: txComponent_eq w)
  qed
  with txComponent_range show ?thesis by blast
qed

theorem txComponent_formula_witness:
  "txComponent (calculateCreditScore default_env networks
        [(''polygon'', \<lparr>count = 10, firstTxTimestamp = None\<rparr>)] 0) =
      min (ln (1 + (\<Sum>(k, d)\<leftarrow>[(''polygon'', \<lparr>count = 10, firstTxTimestamp = None\<rparr>)].
                      of_int (count d) * (\<lambda>k. 0.8) k)) / ln (1 + 500)) 1
    \<and> 0 \<le> txComponent (calculateCreditScore default_env networks
        [(''polygon'', \<lparr>count = 10, firstTxTimestamp = None\<rparr>)] 0)
    \<and> txComponent (calculateCreditScore default_env networks
        [(''polygon'', \<lparr>count = 10, firstTxTimestamp = None\<rparr>)] 0) \<le> 1"
proof -
  have h1: "\<forall>(k, d) \<in> set [(''polygon'', \<lparr>count = 10, firstTxTimestamp = None\<rparr>)]. 0 \<le> count d"
    by simp
  have h2: "\<forall>(k, d) \<in> set [(''polygon'', \<lparr>count = 10, firstTxTimestamp = None\<rparr>)].
       map_option weight (map_of networks k) = Some ((\<lambda>k. 0.8) k)"
    by (simp add: networks_def)
  show ?thesis by (rule txComponent_formula[OF h1 h2])
qed

subsection \<open>The age component\<close>

text \<open>
  Claim C3. For every \<open>txData\<close> and every non-negative account age the age component is
  \<open>min (sqrt (age / 730) + ageBonus) 1\<close>, where \<open>ageBonus\<close> is \<open>0.1\<close> exactly when the
  total transaction count over all chains is positive and the age is below 30 days, and
  \<open>0\<close> otherwise.
\<close>

theorem ageComponent_formula:
  assumes "0 \<le> ageDays"
  shows "ageComponent (calculateCreditScore e nets txd ageDays) =
           Some (min (sqrt (ageDays / 730)
                      + (if (\<Sum>(k, d)\<leftarrow>txd. count d) > 0 \<and> ageDays < 30 then 0.1 else 0)) 1)"
  using assms by (simp add: ageComponent_eq tally_total Math_sqrt_def MAX_ACCOUNT_AGE_DAYS_def)

theorem ageComponent_formula_witness:
  "(0::real) \<le> 29 \<and>
   ageComponent (calculateCreditScore default_env networks
       [(''ethereum'', \<lparr>count = 10, firstTxTimestamp = None\<rparr>)] 29) =
     Some (min (sqrt (29 / 730)
                + (if (\<Sum>(k, d)\<leftarrow>[(''ethereum'', \<lparr>count = 10, firstTxTimestamp = None\<rparr>)].
                         count d) > 0 \<and> (29::real) < 30 then 0.1 else 0)) 1)"
proof -
  have h: "(0::real) \<le> 29" by simp
  show ?thesis by (rule conjI[OF h ageComponent_formula[OF h]])
qed

subsection \<open>A wallet without activity\<close>

lemma tally_all_zero:
  assumes "\<forall>(k, d) \<in> set txd. count d = 0"
  shows "tally nets txd acc = acc"
  using assms by (induction nets txd acc rule: tally.induct) auto

text \<open>
  Claim C5. When every chain's count is 0 and the account age is 0, the score is
  \<open>MIN_SCORE\<close>; the transaction, age and activity components are 0, and the total
  transaction count is 0, so that no age bonus applies.
\<close>

theorem zero_activity_min_score:
  assumes "\<forall>(k, d) \<in> set txd. count d = 0"
  shows "score (calculateCreditScore e nets txd 0) = Some (MIN_SCORE e) \<and>
         txComponent (calculateCreditScore e nets txd 0) = 0 \<and>
         ageComponent (calculateCreditScore e nets txd 0) = Some 0 \<and>
         activityComponent (calculateCreditScore e nets txd 0) = 0 \<and>
         txCount (calculateCreditScore e nets txd 0) = 0"
  by (simp add: calculateCreditScore_def tally_all_zero[OF assms] Math_sqrt_def)

theorem zero_activity_min_score_witness:
  "score (calculateCreditScore default_env networks (init_txData networks) 0)
      = Some (MIN_SCORE default_env) \<and>
   txComponent (calculateCreditScore default_env networks (init_txData networks) 0) = 0 \<and>
   ageComponent (calculateCreditScore default_env networks (init_txData networks) 0) = Some 0 \<and>
   activityComponent (calculateCreditScore default_env networks (init_txData networks) 0) = 0 \<and>
   txCount (calculateCreditScore default_env networks (init_txData networks) 0) = 0"
proof -
  have h: "\<forall>(k, d) \<in> set (init_txData networks). count d = 0"
    by (simp add: init_txData_def networks_def)
  show ?thesis by (rule zero_activity_min_score[OF h])
qed

subsection \<open>Monotonicity in a chain's count\<close>

lemma tx_curve_mono:
  fixes w w' :: real
  assumes "w \<le> w'"
  shows "(if w > 0 then min (ln (w + 1) / ln (MAX_TX_COUNT + 1)) 1 else 0)
       \<le> (if w' > 0 then min (ln (w' + 1) / ln (MAX_TX_COUNT + 1)) 1 else 0)"
proof -
  have l: "0 < ln (MAX_TX_COUNT + 1)" by (simp add: MAX_TX_COUNT_def)
  show ?thesis
  proof (cases "w > 0")
    case True
    with assms have w': "w' > 0" by simp
    have "ln (w + 1) \<le> ln (w' + 1)" using True assms by simp
    then have "ln (w + 1) / ln (MAX_TX_COUNT + 1) \<le> ln (w' + 1) / ln (MAX_TX_COUNT + 1)"
      using l by (simp add: divide_right_mono)
    then show ?thesis using True w' by (simp add: min_le_iff_disj)
  next
    case False
    have "0 \<le> ln (w' + 1) / ln (MAX_TX_COUNT + 1)" if "w' > 0"
      using that l by simp
    then show ?thesis using False by simp
  qed
qed

lemma networkWeight_nonneg:
  assumes "\<forall>c \<in> snd ` set nets. 0 \<le> weight c"
  shows "0 \<le> networkWeight nets k"
proof (cases "map_of nets k")
  case None
  then show ?thesis by (simp add: networkWeight_def)
next
  case (Some c)
  then have "(k, c) \<in> set nets" by (rule map_of_SomeD)
  then have "c \<in> snd ` set nets" by force
  with assms have "0 \<le> weight c" by blast
  with Some show ?thesis by (simp add: networkWeight_def)
qed

text \<open>
  Claim C7. With non-negative weights in the table, raising the count of one chain and
  leaving every other entry as it is never lowers the transaction component.
\<close>

theorem txComponent_monotone:
  assumes "\<forall>c \<in> snd ` set nets. 0 \<le> weight c" and "count d \<le> n"
  shows "txComponent (calculateCreditScore e nets (xs @ (k, d) # ys) ageDays)
       \<le> txComponent (calculateCreditScore e nets (xs @ (k, d\<lparr>count := n\<rparr>) # ys) ageDays')"
proof -
  have "of_int (count d) * networkWeight nets k \<le> of_int n * networkWeight nets k"
    using assms(2) networkWeight_nonneg[OF assms(1)] by (simp add: mult_right_mono)
  then have "fst (tally nets (xs @ (k, d) # ys) (0, 0, 0))
           \<le> fst (tally nets (xs @ (k, d\<lparr>count := n\<rparr>) # ys) (0, 0, 0))"
    by (simp add: tally_weighted)
  then show ?thesis
    unfolding txComponent_eq Let_def by (rule tx_curve_mono)
qed

theorem txComponent_monotone_witness:
  "count \<lparr>count = 1, firstTxTimestamp = None\<rparr> \<le> 2 \<and>
   txComponent (calculateCreditScore default_env networks
       ([] @ (''ethereum'', \<lparr>count = 1, firstTxTimestamp = None\<rparr>) # []) 0)
     \<le> txComponent (calculateCreditScore default_env networks
       ([] @ (''ethereum'', \<lparr>count = 1, firstTxTimestamp = None\<rparr>\<lparr>count := 2\<rparr>) # []) 0)"
proof -
  have h1: "\<forall>c \<in> snd ` set networks. 0 \<le> weight c" by (simp add: networks_def)
  have h2: "count \<lparr>count = 1, firstTxTimestamp = None\<rparr> \<le> 2" by simp
  show ?thesis by (rule conjI[OF h2 txComponent_monotone[OF h1 h2]])
qed

subsection \<open>The default weight\<close>

lemma networkWeight_zero_half:
  "networkWeight (pre @ (k, c\<lparr>weight := 0\<rparr>) # post) =
   networkWeight (pre @ (k, c\<lparr>weight := 0.5\<rparr>) # post)"
proof
  fix n
  show "networkWeight (pre @ (k, c\<lparr>weight := 0\<rparr>) # post) n =
        networkWeight (pre @ (k, c\<lparr>weight := 0.5\<rparr>) # post) n"
    by (cases "map_of pre n") (simp_all add: networkWeight_def map_add_def)
qed

lemma tally_cong_weight:
  assumes "networkWeight nets = networkWeight nets'"
  shows "tally nets txd acc = tally nets' txd acc"
  using assms by (induction nets txd acc rule: tally.induct) auto

text \<open>
  Claim C9. A chain that is absent from the table, or whose configured weight is 0,
  has weight \<open>0.5\<close>: its entry adds \<open>count * 0.5\<close> to the weighted transaction count.
  In particular a table that configures a chain with weight 0 gives the same result as
  the table that configures it with weight \<open>0.5\<close>.
\<close>

theorem falsy_weight_defaults:
  assumes "map_of nets k = None \<or> (\<exists>c. map_of nets k = Some c \<and> weight c = 0)"
  shows "networkWeight nets k = 0.5 \<and>
         weightedTxCount (calculateCreditScore e nets (xs @ (k, d) # ys) ageDays) =
           weightedTxCount (calculateCreditScore e nets (xs @ ys) ageDays) + of_int (count d) * 0.5 \<and>
         calculateCreditScore e (pre @ (k, cfg\<lparr>weight := 0\<rparr>) # post) txd ageDays =
           calculateCreditScore e (pre @ (k, cfg\<lparr>weight := 0.5\<rparr>) # post) txd ageDays"
proof -
  have w: "networkWeight nets k = 0.5"
    using assms by (auto simp: networkWeight_def)
  have wt: "weightedTxCount (calculateCreditScore e nets t ageDays) = fst (tally nets t (0, 0, 0))" for t
    by (simp add: calculateCreditScore_def Let_def split: prod.splits)
  have c: "calculateCreditScore e (pre @ (k, cfg\<lparr>weight := 0\<rparr>) # post) txd ageDays =
           calculateCreditScore e (pre @ (k, cfg\<lparr>weight := 0.5\<rparr>) # post) txd ageDays"
    unfolding calculateCreditScore_def
    by (simp only: tally_cong_weight[OF networkWeight_zero_half])
  show ?thesis using w c by (simp add: wt tally_weighted)
qed

theorem falsy_weight_defaults_witness:
  "(map_of [(''ethereum'', \<lparr>weight = 0, enabled = True, supportsInternalTx = True\<rparr>)] ''ethereum'' = None
    \<or> (\<exists>c. map_of [(''ethereum'', \<lparr>weight = 0, enabled = True, supportsInternalTx = True\<rparr>)] ''ethereum''
              = Some c \<and> weight c = 0)) \<and>
   networkWeight [(''ethereum'', \<lparr>weight = 0, enabled = True, supportsInternalTx = True\<rparr>)] ''ethereum''
     = 0.5"
proof -
  have h: "map_of [(''ethereum'', \<lparr>weight = 0, enabled = True, supportsInternalTx = True\<rparr>)] ''ethereum'' = None
    \<or> (\<exists>c. map_of [(''ethereum'', \<lparr>weight = 0, enabled = True, supportsInternalTx = True\<rparr>)] ''ethereum''
              = Some c \<and> weight c = 0)"
    by simp
  show ?thesis by (rule conjI[OF h conjunct1[OF falsy_weight_defaults[OF h]]])
qed

subsection \<open>The age bonus ends at 30 days\<close>

lemma tally_eth500:
  "tally networks [(''ethereum'', \<lparr>count = 500, firstTxTimestamp = None\<rparr>)] (0, 0, 0) = (500, 500, 1)"
  by (simp add: networks_def networkWeight_def)

lemma sqrt_29: "194 / 1000 \<le> sqrt (29 / 730)" "sqrt (29 / 730) < 2 / 10"
proof -
  show "194 / 1000 \<le> sqrt (29 / 730)"
    by (rule real_le_rsqrt) (simp add: power2_eq_square)
  show "sqrt (29 / 730) < 2 / 10"
    by (rule real_less_lsqrt) (simp_all add: power2_eq_square)
qed

lemma sqrt_30: "2 / 10 \<le> sqrt (30 / 730)" "sqrt (30 / 730) < 203 / 1000"
proof -
  show "2 / 10 \<le> sqrt (30 / 730)"
    by (rule real_le_rsqrt) (simp add: power2_eq_square)
  show "sqrt (30 / 730) < 203 / 1000"
    by (rule real_less_lsqrt) (simp_all add: power2_eq_square)
qed

lemma final_eth500:
  fixes a :: real
  shows "of_int (MIN_SCORE default_env) +
           (1 * TX_COUNT_WEIGHT + a * AGE_WEIGHT + (1 / 5) * ACTIVITY_WEIGHT)
           * of_int (MAX_SCORE default_env - MIN_SCORE default_env) = 597 + 165 * a"
  by (simp add: default_env_def TX_COUNT_WEIGHT_def AGE_WEIGHT_def ACTIVITY_WEIGHT_def
      algebra_simps)

lemma score_eth500:
  fixes ageDays bonus :: real
  assumes "0 \<le> ageDays" and "bonus = (if ageDays < 30 then 1 / 10 else 0)"
  shows "score (calculateCreditScore default_env networks
            [(''ethereum'', \<lparr>count = 500, firstTxTimestamp = None\<rparr>)] ageDays) =
         Some (round (597 + 165 * min (sqrt (ageDays / 730) + bonus) 1))"
proof -
  define r where "r = calculateCreditScore default_env networks
            [(''ethereum'', \<lparr>count = 500, firstTxTimestamp = None\<rparr>)] ageDays"
  define a where "a = min (sqrt (ageDays / 730) + bonus) 1"
  have tx: "txComponent r = 1"
    unfolding r_def txComponent_eq tally_eth500 by (simp add: MAX_TX_COUNT_def)
  have act: "activityComponent r = 1 / 5"
    unfolding r_def activityComponent_eq tally_eth500 by (simp add: MAX_NETWORKS_def)
  have age: "ageComponent r = Some a"
    using assms unfolding r_def a_def ageComponent_eq tally_eth500
    by (simp add: Math_sqrt_def MAX_ACCOUNT_AGE_DAYS_def)
  have "score r = Some (round (of_int (MIN_SCORE default_env) +
           (1 * TX_COUNT_WEIGHT + a * AGE_WEIGHT + (1 / 5) * ACTIVITY_WEIGHT)
           * of_int (MAX_SCORE default_env - MIN_SCORE default_env)))"
    unfolding r_def score_eq
    unfolding r_def[symmetric] tx act age by simp
  then show ?thesis unfolding r_def a_def by (simp only: final_eth500)
qed

lemma round_29: "round (597 + 165 * min (sqrt (29 / 730) + 1 / 10) 1) = 646"
proof -
  define x where "x = sqrt (29 / 730)"
  have b: "194 / 1000 \<le> x" "x < 2 / 10" using sqrt_29 by (simp_all add: x_def)
  then have m: "min (x + 1 / 10) 1 = x + 1 / 10" by simp
  have "round (597 + 165 * (x + 1 / 10)) = 646"
    using b by (intro round_unique; simp)
  then show ?thesis unfolding x_def[symmetric] m .
qed

lemma round_30: "round (597 + 165 * min (sqrt (30 / 730) + 0) 1) = 630"
proof -
  define x where "x = sqrt (30 / 730)"
  have b: "2 / 10 \<le> x" "x < 203 / 1000" using sqrt_30 by (simp_all add: x_def)
  then have m: "min (x + 0) 1 = x" by simp
  have "round (597 + 165 * x) = 630"
    using b by (intro round_unique; simp)
  then show ?thesis unfolding x_def[symmetric] m .
qed

text \<open>
  Claim C10. The score is not monotone in the account age: for the wallet with 500
  transactions on ethereum, and so a positive total, the score is 646 at 29 days and
  630 at 30 days. The bonus of \<open>0.1\<close> ends at 30 days, where \<open>sqrt (30 / 730)\<close> exceeds
  \<open>sqrt (29 / 730)\<close> by less than \<open>0.1\<close>.
\<close>

theorem age_bonus_cliff:
  "score (calculateCreditScore default_env networks
            [(''ethereum'', \<lparr>count = 500, firstTxTimestamp = None\<rparr>)] 29) = Some 646 \<and>
   score (calculateCreditScore default_env networks
            [(''ethereum'', \<lparr>count = 500, firstTxTimestamp = None\<rparr>)] 30) = Some 630"
proof -
  have a0: "(0::real) \<le> 29" and b0: "(0::real) \<le> 30" by simp_all
  have a1: "(1 / 10 :: real) = (if (29::real) < 30 then 1 / 10 else 0)" by simp
  have b1: "(0::real) = (if (30::real) < 30 then 1 / 10 else 0)" by simp
  have "score (calculateCreditScore default_env networks
            [(''ethereum'', \<lparr>count = 500, firstTxTimestamp = None\<rparr>)] 29) = Some 646"
    using score_eth500[OF a0 a1] by (simp only: round_29)
  moreover have "score (calculateCreditScore default_env networks
            [(''ethereum'', \<lparr>count = 500, firstTxTimestamp = None\<rparr>)] 30) = Some 630"
    using score_eth500[OF b0 b1] by (simp only: round_30)
  ultimately show ?thesis by (rule conjI)
qed

section \<open>Properties of the request handlers\<close>

subsection \<open>The fan-out join keeps one entry per configured chain\<close>

lemma assign_keys:
  "k \<in> fst ` set txd \<Longrightarrow> map fst (assign txd k v) = map fst txd"
  by (induction txd k v rule: assign.induct) auto

lemma map_of_assign:
  "map_of (assign txd k v) k' = (if k' = k then Some v else map_of txd k')"
  by (induction txd k v rule: assign.induct) auto

lemma settle_keys:
  "set order \<subseteq> fst ` set txd \<Longrightarrow> map fst (settle provider order txd) = map fst txd"
proof (induction order arbitrary: txd)
  case Nil
  then show ?case by simp
next
  case (Cons k ks)
  show ?case
  proof (cases "fetch_task (provider k)")
    case None
    with Cons show ?thesis by simp
  next
    case (Some v)
    from Cons.prems have k: "k \<in> fst ` set txd" by simp
    have keys: "map fst (assign txd k v) = map fst txd" using k by (rule assign_keys)
    then have "fst ` set (assign txd k v) = fst ` set txd"
      by (metis list.set_map)
    with Cons.prems have "set ks \<subseteq> fst ` set (assign txd k v)" by simp
    from Cons.IH[OF this] keys Some show ?thesis by simp
  qed
qed

lemma settle_untouched:
  "k \<notin> set order \<or> provider k = FetchFailed \<Longrightarrow>
   map_of (settle provider order txd) k = map_of txd k"
proof (induction order arbitrary: txd)
  case Nil
  then show ?case by simp
next
  case (Cons j js)
  then have rest: "k \<notin> set js \<or> provider k = FetchFailed" by auto
  show ?case
  proof (cases "fetch_task (provider j)")
    case None
    with Cons.IH[OF rest] show ?thesis by simp
  next
    case (Some v)
    with Cons.prems have "j \<noteq> k" by auto
    with Cons.IH[OF rest] Some show ?thesis by (simp add: map_of_assign)
  qed
qed

lemma init_txData_keys: "map fst (init_txData nets) = map fst nets"
  by (induction nets) (auto simp: init_txData_def)

lemma map_of_init_txData:
  "k \<in> fst ` set nets \<Longrightarrow>
   map_of (init_txData nets) k = Some \<lparr>count = 0, firstTxTimestamp = None\<rparr>"
  by (induction nets) (auto simp: init_txData_def)

lemma alchemyInstances_subset: "set (alchemyInstances nets sdk_ok) \<subseteq> fst ` set nets"
  by (auto simp: alchemyInstances_def)

lemma networks_keys:
  "map fst networks = [''ethereum'', ''polygon'', ''arbitrum'', ''optimism'', ''base'',
                       ''avalanche'', ''bsc'', ''fantom'', ''zksync'']"
  by (simp add: networks_def)

text \<open>
  Claim C6. After all fetch tasks have settled, in whatever order, \<open>txData\<close> has exactly
  the keys of the nine configured networks, each once and in the table's order. A chain
  without an Alchemy instance (disabled, or not supported by the SDK) and a chain whose
  fetch failed or timed out has the entry \<open>{count: 0, firstTxTimestamp: null}\<close>.
\<close>

theorem fanout_complete:
  assumes "set (w_order w) = set (alchemyInstances networks (w_sdk_ok w))"
  shows "map fst (collect_txData w addr) = map fst networks \<and>
         distinct (map fst networks) \<and> length networks = 9 \<and>
         (\<forall>k \<in> set (map fst networks).
            k \<notin> set (alchemyInstances networks (w_sdk_ok w)) \<or> w_provider w addr k = FetchFailed
            \<longrightarrow> map_of (collect_txData w addr) k = Some \<lparr>count = 0, firstTxTimestamp = None\<rparr>)"
proof -
  have sub: "set (w_order w) \<subseteq> fst ` set (init_txData networks)"
    using assms alchemyInstances_subset[of networks "w_sdk_ok w"] init_txData_keys[of networks]
    by (metis list.set_map)
  have keys: "map fst (collect_txData w addr) = map fst networks"
    unfolding collect_txData_def by (simp add: settle_keys[OF sub] init_txData_keys)
  have d: "distinct (map fst networks)" unfolding networks_keys by simp
  have l: "length networks = 9" by (simp add: networks_def)
  have z: "map_of (collect_txData w addr) k = Some \<lparr>count = 0, firstTxTimestamp = None\<rparr>"
    if "k \<in> set (map fst networks)"
      and "k \<notin> set (alchemyInstances networks (w_sdk_ok w)) \<or> w_provider w addr k = FetchFailed"
    for k
  proof -
    from that(2) assms have "k \<notin> set (w_order w) \<or> w_provider w addr k = FetchFailed" by simp
    from settle_untouched[of k "w_order w" "w_provider w addr", OF this] that(1) show ?thesis
      unfolding collect_txData_def by (simp add: map_of_init_txData)
  qed
  from keys d l z show ?thesis by blast
qed

theorem fanout_complete_witness:
  "map fst (collect_txData
      \<lparr>w_env = default_env, w_sdk_ok = (\<lambda>network. network \<noteq> ''bsc''),
       w_provider = (\<lambda>wallet network.
          if network = ''ethereum'' then Fetched 10 (Some 1000) else FetchFailed),
       w_order = alchemyInstances networks (\<lambda>network. network \<noteq> ''bsc''), w_now = 0\<rparr>
      ''0x1234567890abcdef1234567890abcdef12345678'') = map fst networks \<and>
   map_of (collect_txData
      \<lparr>w_env = default_env, w_sdk_ok = (\<lambda>network. network \<noteq> ''bsc''),
       w_provider = (\<lambda>wallet network.
          if network = ''ethereum'' then Fetched 10 (Some 1000) else FetchFailed),
       w_order = alchemyInstances networks (\<lambda>network. network \<noteq> ''bsc''), w_now = 0\<rparr>
      ''0x1234567890abcdef1234567890abcdef12345678'') ''bsc''
     = Some \<lparr>count = 0, firstTxTimestamp = None\<rparr>"
proof -
  let ?w = "\<lparr>w_env = default_env, w_sdk_ok = (\<lambda>network. network \<noteq> ''bsc''),
       w_provider = (\<lambda>wallet network.
          if network = ''ethereum'' then Fetched 10 (Some 1000) else FetchFailed),
       w_order = alchemyInstances networks (\<lambda>network. network \<noteq> ''bsc''), w_now = 0\<rparr>"
  have h: "set (w_order ?w) = set (alchemyInstances networks (w_sdk_ok ?w))" by simp
  have k: "''bsc'' \<in> set (map fst networks)" by (simp add: networks_def)
  have n: "''bsc'' \<notin> set (alchemyInstances networks (w_sdk_ok ?w))"
    by (simp add: alchemyInstances_def networks_def)
  from fanout_complete[OF h, of "''0x1234567890abcdef1234567890abcdef12345678''"] k n
  show ?thesis by blast
qed

subsection \<open>The account age\<close>

lemma timestamps_empty_iff:
  "timestamps txd = [] \<longleftrightarrow> (\<forall>(k, d) \<in> set txd. firstTxTimestamp d = None)"
  by (induction txd rule: timestamps.induct) (auto split: option.splits)

lemma timestamps_nonzero:
  "(\<forall>(k, d) \<in> set txd. firstTxTimestamp d \<noteq> Some 0) \<Longrightarrow> 0 \<notin> set (timestamps txd)"
  by (induction txd rule: timestamps.induct) (auto split: option.splits)

lemma Min_insert_min:
  fixes a b :: int
  assumes "finite A"
  shows "Min (insert (min a b) A) = Min (insert a (insert b A))"
proof (cases "A = {}")
  case True
  then show ?thesis by (simp add: min.commute)
next
  case False
  with assms show ?thesis by (simp add: min.assoc)
qed

lemma age_loop_oldest:
  assumes "0 \<notin> set (timestamps txd) \<union> set_option oldest"
  shows "fst (age_loop txd (oldest, hasTx)) =
           (if set (timestamps txd) \<union> set_option oldest = {} then None
            else Some (Min (set (timestamps txd) \<union> set_option oldest)))"
  using assms
proof (induction txd arbitrary: oldest hasTx)
  case Nil
  then show ?case by (cases oldest) auto
next
  case (Cons x xs)
  obtain k d where x: "x = (k, d)" by (cases x)
  show ?case
  proof (cases "firstTxTimestamp d")
    case None
    with Cons x show ?thesis by (simp add: older_def)
  next
    case (Some t)
    with Cons.prems x have t: "t \<noteq> 0" by auto
    show ?thesis
    proof (cases oldest)
      case None
      have "0 \<notin> set (timestamps xs) \<union> set_option (Some t)"
        using Cons.prems x Some t by auto
      from Cons.IH[OF this] show ?thesis
        using x Some None by (simp add: older_def t)
    next
      case (Some ol)
      with Cons.prems have ol: "ol \<noteq> 0" by auto
      have p: "0 \<notin> set (timestamps xs) \<union> set_option (Some (min t ol))"
        using Cons.prems x \<open>firstTxTimestamp d = Some t\<close> t ol Some by (auto simp: min_def)
      have new: "(if older (firstTxTimestamp d) oldest then firstTxTimestamp d else oldest)
                 = Some (min t ol)"
        using \<open>firstTxTimestamp d = Some t\<close> Some t ol by (auto simp: older_def min_def)
      have "fst (age_loop (x # xs) (oldest, hasTx)) =
            Some (Min (insert (min t ol) (set (timestamps xs))))"
        unfolding x age_loop.simps new using Cons.IH[OF p] by simp
      also have "\<dots> = Some (Min (insert t (insert ol (set (timestamps xs)))))"
        by (simp add: Min_insert_min)
      finally show ?thesis
        using x \<open>firstTxTimestamp d = Some t\<close> Some by (simp add: insert_commute)
    qed
  qed
qed

lemma age_loop_flag:
  "snd (age_loop txd (oldest, hasTx)) =
     (hasTx \<or> (\<exists>(k, d) \<in> set txd. count d > 0 \<and> \<not> truthy (firstTxTimestamp d)))"
proof (induction txd arbitrary: oldest hasTx)
  case Nil
  then show ?case by simp
next
  case (Cons x xs)
  obtain k d where x: "x = (k, d)" by (cases x)
  show ?case unfolding x age_loop.simps Cons.IH by auto
qed

lemma foldl_count:
  "foldl (\<lambda>sum data. sum + count data) a (map snd txd) = a + (\<Sum>(k, d)\<leftarrow>txd. count d)"
  by (induction txd arbitrary: a) (auto simp: algebra_simps)

lemma totalTxCount_sum: "totalTxCount txd = (\<Sum>(k, d)\<leftarrow>txd. count d)"
  by (simp add: totalTxCount_def foldl_count)

lemma accountAge_cases:
  "accountAge now txd =
     (if truthy (fst (age_loop txd (None, False)))
      then (now - the (fst (age_loop txd (None, False)))) div 86400000
      else if snd (age_loop txd (None, False)) then min (totalTxCount txd * 5) 365 else 0)"
  by (auto simp: accountAge_def Let_def truthy_def split: prod.splits option.splits)

lemma set_assign: "set (assign txd k v) \<subseteq> insert (k, v) (set txd)"
  by (induction txd k v rule: assign.induct) auto

lemma fetch_task_timestamp:
  "fetch_task out = Some v \<Longrightarrow> count v \<le> 0 \<Longrightarrow> firstTxTimestamp v = None"
  by (cases out) auto

lemma settle_timestamp:
  assumes "\<forall>(k, d) \<in> set txd. count d \<le> 0 \<longrightarrow> firstTxTimestamp d = None"
  shows "\<forall>(k, d) \<in> set (settle provider order txd). count d \<le> 0 \<longrightarrow> firstTxTimestamp d = None"
  using assms
proof (induction order arbitrary: txd)
  case Nil
  then show ?case by simp
next
  case (Cons j js)
  show ?case
  proof (cases "fetch_task (provider j)")
    case None
    with Cons show ?thesis by simp
  next
    case (Some v)
    have "\<forall>(k, d) \<in> set (assign txd j v). count d \<le> 0 \<longrightarrow> firstTxTimestamp d = None"
      using set_assign[of txd j v] Cons.prems fetch_task_timestamp[OF Some] by auto
    from Cons.IH[OF this] Some show ?thesis by simp
  qed
qed

lemma collect_timestamp:
  "\<forall>(k, d) \<in> set (collect_txData w addr). count d \<le> 0 \<longrightarrow> firstTxTimestamp d = None"
  unfolding collect_txData_def
  by (rule settle_timestamp) (auto simp: init_txData_def)

lemma age_from_timestamps:
  assumes "\<forall>(k, d) \<in> set txd. firstTxTimestamp d \<noteq> Some 0" and "timestamps txd \<noteq> []"
  shows "accountAge now txd = (now - Min (set (timestamps txd))) div (1000 * 60 * 60 * 24)"
proof -
  have z: "0 \<notin> set (timestamps txd) \<union> set_option None"
    using timestamps_nonzero[OF assms(1)] by simp
  have o: "fst (age_loop txd (None, False)) = Some (Min (set (timestamps txd)))"
    using age_loop_oldest[OF z, of False] assms(2) by simp
  have "Min (set (timestamps txd)) \<in> set (timestamps txd)"
    using assms(2) by (intro Min_in) simp_all
  with z have "Min (set (timestamps txd)) \<noteq> 0" by auto
  then show ?thesis by (simp add: accountAge_cases o truthy_def)
qed

lemma age_estimate:
  assumes "timestamps txd = []"
  shows "accountAge now txd =
           (if \<exists>(k, d) \<in> set txd. count d > 0 then min (5 * (\<Sum>(k, d)\<leftarrow>txd. count d)) 365 else 0)"
proof -
  have n: "\<forall>(k, d) \<in> set txd. firstTxTimestamp d = None"
    using assms by (simp add: timestamps_empty_iff)
  have z: "0 \<notin> set (timestamps txd) \<union> set_option None" using assms by simp
  have o: "fst (age_loop txd (None, False)) = None"
    using age_loop_oldest[OF z, of False] assms by simp
  have t: "\<not> truthy (firstTxTimestamp d)" if "(k, d) \<in> set txd" for k d
    using n that by (auto simp: truthy_def)
  have f: "snd (age_loop txd (None, False)) = (\<exists>(k, d) \<in> set txd. count d > 0)"
    unfolding age_loop_flag using t by blast
  show ?thesis
    by (simp add: accountAge_cases o f truthy_def totalTxCount_sum mult.commute)
qed

lemma scenario_D:
  "accountAge now (assign (init_txData networks) ''ethereum''
                     \<lparr>count = 10, firstTxTimestamp = None\<rparr>) = 50"
  by (simp add: accountAge_def init_txData_def networks_def older_def truthy_def totalTxCount_def)

text \<open>
  Claim C4. For the \<open>txData\<close> that the handler has collected, with no timestamp equal to
  the epoch itself (\<open>0\<close>, which the code takes for a missing one): if a chain carries a
  timestamp, the account age is the floor of \<open>now\<close> minus the least timestamp, in days;
  if none does and some chain has a positive count, it is \<open>min (5 * total count) 365\<close>;
  if every count is 0, it is 0. A wallet with 10 transactions on ethereum, none
  elsewhere and no timestamp has age 50.
\<close>

theorem account_age_derivation:
  assumes "\<forall>(k, d) \<in> set (collect_txData w addr). firstTxTimestamp d \<noteq> Some 0"
  shows "(timestamps (collect_txData w addr) \<noteq> [] \<longrightarrow>
            accountAge (w_now w) (collect_txData w addr) =
              (w_now w - Min (set (timestamps (collect_txData w addr)))) div (1000 * 60 * 60 * 24))
       \<and> (timestamps (collect_txData w addr) = []
            \<and> (\<exists>(k, d) \<in> set (collect_txData w addr). count d > 0) \<longrightarrow>
            accountAge (w_now w) (collect_txData w addr) =
              min (5 * (\<Sum>(k, d)\<leftarrow>collect_txData w addr. count d)) 365)
       \<and> ((\<forall>(k, d) \<in> set (collect_txData w addr). count d = 0) \<longrightarrow>
            accountAge (w_now w) (collect_txData w addr) = 0)
       \<and> accountAge (w_now w) (assign (init_txData networks) ''ethereum''
                     \<lparr>count = 10, firstTxTimestamp = None\<rparr>) = 50"
proof -
  let ?t = "collect_txData w addr"
  have a: "timestamps ?t \<noteq> [] \<longrightarrow>
            accountAge (w_now w) ?t = (w_now w - Min (set (timestamps ?t))) div (1000 * 60 * 60 * 24)"
    using age_from_timestamps[OF assms] by blast
  have b: "timestamps ?t = [] \<and> (\<exists>(k, d) \<in> set ?t. count d > 0) \<longrightarrow>
            accountAge (w_now w) ?t = min (5 * (\<Sum>(k, d)\<leftarrow>?t. count d)) 365"
    using age_estimate[of ?t "w_now w"] by auto
  have c: "(\<forall>(k, d) \<in> set ?t. count d = 0) \<longrightarrow> accountAge (w_now w) ?t = 0"
  proof
    assume zero: "\<forall>(k, d) \<in> set ?t. count d = 0"
    with collect_timestamp[of w addr] have "\<forall>(k, d) \<in> set ?t. firstTxTimestamp d = None"
      by fastforce
    then have "timestamps ?t = []" by (simp add: timestamps_empty_iff)
    from age_estimate[OF this, of "w_now w"] zero show "accountAge (w_now w) ?t = 0"
      by auto
  qed
  from a b c scenario_D show ?thesis by blast
qed

theorem account_age_derivation_witness:
  "accountAge 259201000 (collect_txData
      \<lparr>w_env = default_env, w_sdk_ok = (\<lambda>network. True),
       w_provider = (\<lambda>wallet network.
          if network = ''ethereum'' then Fetched 10 (Some 1000) else FetchFailed),
       w_order = [''ethereum''], w_now = 259201000\<rparr>
      ''0x1234567890abcdef1234567890abcdef12345678'') = 3"
proof -
  let ?w = "\<lparr>w_env = default_env, w_sdk_ok = (\<lambda>network. True),
       w_provider = (\<lambda>wallet network.
          if network = ''ethereum'' then Fetched 10 (Some 1000) else FetchFailed),
       w_order = [''ethereum''], w_now = 259201000\<rparr>"
  let ?a = "''0x1234567890abcdef1234567890abcdef12345678''"
  have c: "collect_txData ?w ?a =
             assign (init_txData networks) ''ethereum'' \<lparr>count = 10, firstTxTimestamp = Some 1000\<rparr>"
    by (simp add: collect_txData_def)
  have t: "timestamps (collect_txData ?w ?a) = [1000]"
    unfolding c by (simp add: init_txData_def networks_def)
  have h: "\<forall>(k, d) \<in> set (collect_txData ?w ?a). firstTxTimestamp d \<noteq> Some 0"
    unfolding c by (simp add: init_txData_def networks_def)
  have "accountAge (w_now ?w) (collect_txData ?w ?a) =
          (w_now ?w - Min (set (timestamps (collect_txData ?w ?a)))) div (1000 * 60 * 60 * 24)"
    using account_age_derivation[OF h] t by simp
  then show ?thesis unfolding t by simp
qed

subsection \<open>The POST route\<close>

lemma post_reenters:
  assumes "req_method req = POST" and "req_path req = ''/wallet-score''"
    and "req_body_wallet_address req = Some a" and "valid_wallet_address a"
  shows "app_handle n w req = None"
  using assms
proof (induction n arbitrary: req)
  case 0
  then show ?case by simp
next
  case (Suc n)
  let ?req' = "req\<lparr>req_params_wallet_address := Some a\<rparr>"
  have "app_handle (Suc n) w req = app_handle n w ?req'"
    using Suc.prems by (simp add: post_wallet_score_def)
  also have "\<dots> = None"
    using Suc.prems by (intro Suc.IH) simp_all
  finally show ?case .
qed

lemma valid_no_slash:
  assumes "valid_wallet_address a"
  shows "a \<noteq> [] \<and> CHR ''/'' \<notin> set a"
proof -
  from assms have h: "take 2 a = ''0x''" "list_all is_hex_digit (drop 2 a)" "a \<noteq> []"
    by (simp_all add: valid_wallet_address_def)
  have "set a = set (take 2 a) \<union> set (drop 2 a)"
    by (metis append_take_drop_id set_append)
  moreover have "CHR ''/'' \<notin> set (take 2 a)" using h(1) by simp
  moreover have "CHR ''/'' \<notin> set (drop 2 a)"
    using h(2) by (auto simp: list_all_iff is_hex_digit_def)
  ultimately show ?thesis using h(3) by simp
qed

lemma get_dispatch:
  assumes "valid_wallet_address a"
  shows "app_handle (Suc m) w (get_request a) = Some (get_wallet_score w a)"
  using valid_no_slash[OF assms]
  by (simp add: get_request_def match_wallet_score_param_def)

text \<open>
  Claim C8. Both handlers validate the wallet address with the same test. For a valid
  address a GET request is answered with the score. A POST request is dispatched by its
  method and path, which the POST handler leaves as they are, so \<open>app.handle\<close> runs the
  POST handler again and not the GET handler: at no nesting depth does the POST request
  obtain a response.
\<close>

theorem post_never_reaches_get_handler:
  assumes "valid_wallet_address a"
  shows "app_handle n w (post_request a) = None \<and>
         (\<exists>s. app_handle (Suc m) w (get_request a) = Some (Json200 s))"
proof -
  have "app_handle n w (post_request a) = None"
    by (rule post_reenters[OF _ _ _ assms]) (simp_all add: post_request_def)
  moreover have "\<exists>s. app_handle (Suc m) w (get_request a) = Some (Json200 s)"
    unfolding get_dispatch[OF assms] using assms by (simp add: get_wallet_score_def Let_def)
  ultimately show ?thesis by (rule conjI)
qed

theorem post_never_reaches_get_handler_witness:
  "app_handle 5
      \<lparr>w_env = default_env, w_sdk_ok = (\<lambda>network. True),
       w_provider = (\<lambda>wallet network. FetchFailed), w_order = [], w_now = 0\<rparr>
      (post_request ''0x1234567890abcdef1234567890abcdef12345678'') = None \<and>
   (\<exists>s. app_handle (Suc 0)
      \<lparr>w_env = default_env, w_sdk_ok = (\<lambda>network. True),
       w_provider = (\<lambda>wallet network. FetchFailed), w_order = [], w_now = 0\<rparr>
      (get_request ''0x1234567890abcdef1234567890abcdef12345678'') = Some (Json200 s))"
proof -
  have h: "valid_wallet_address ''0x1234567890abcdef1234567890abcdef12345678''"
    by (simp add: valid_wallet_address_def is_hex_digit_def)
  show ?thesis by (rule post_never_reaches_get_handler[OF h])
qed

end
